theory Spec2Isabelle
  imports Complex_Main "HOL-Library.Sublist"
begin

section \<open>Data model (store.ts)\<close>

text \<open>
  A JavaScript number is modelled by the real number it denotes: the model covers the
  finite numbers, without NaN, infinity and signed zero. Comparisons, \<open>Math.round\<close>,
  \<open>Math.floor\<close> and \<open>%\<close> are exact on such numbers; a division is rounded to the
  nearest double (\<open>binary64\<close> below). Strings are byte lists; identifiers, roles and
  the provider's maneuver names are ASCII.
\<close>

record Location =
  lat :: real
  lng :: real

datatype Role = driver | passenger

text \<open>A row of the \<open>users\<close> table as the backend delivers it (the argument of \<open>mapUser\<close>).\<close>

record UserRow =
  urow_id :: string
  urow_name :: string
  urow_role :: Role
  urow_lat :: "real option"
  urow_lng :: "real option"
  urow_is_online :: bool
  urow_is_premium :: bool

text \<open>
  \<open>interface User\<close>. The fields \<open>id\<close>, \<open>name\<close>, \<open>role\<close>, \<open>lat\<close>, \<open>lng\<close> carry the
  prefix \<open>user_\<close>; the compatibility fields keep their names.
\<close>

record User =
  user_id :: string
  user_name :: string
  user_role :: Role
  user_lat :: "real option"
  user_lng :: "real option"
  is_online :: bool
  is_premium :: bool
  location :: "Location option"
  isOnline :: bool
  isPremium :: bool

definition mapUser :: "UserRow \<Rightarrow> User" where
  "mapUser row =
     \<lparr> user_id = urow_id row,
       user_name = urow_name row,
       user_role = urow_role row,
       user_lat = urow_lat row,
       user_lng = urow_lng row,
       is_online = urow_is_online row,
       is_premium = urow_is_premium row,
       location = (case (urow_lat row, urow_lng row) of
                     (Some la, Some lo) \<Rightarrow> Some \<lparr> lat = la, lng = lo \<rparr>
                   | _ \<Rightarrow> None),
       isOnline = urow_is_online row,
       isPremium = urow_is_premium row \<rparr>"

section \<open>Visibility filter (MapView.tsx)\<close>

text \<open>
  \<open>getDistance\<close> of \<open>../utils\<close>, called with four numbers, is a parameter \<open>distKm\<close> of the
  two components. Both return the "Acquiring GPS signal" screen (\<open>None\<close> here) when
  there is no current user or the current user has no location.
\<close>

definition visibilityRadius :: "User \<Rightarrow> real" where
  "visibilityRadius currentUser = (if isPremium currentUser then 5 else 1)"

definition MapView_visibleUsers ::
  "(real \<Rightarrow> real \<Rightarrow> real \<Rightarrow> real \<Rightarrow> real) \<Rightarrow> User option \<Rightarrow> User list \<Rightarrow> User list option" where
  "MapView_visibleUsers distKm cu users =
     (case cu of
        None \<Rightarrow> None
      | Some currentUser \<Rightarrow>
          (case location currentUser of
             None \<Rightarrow> None
           | Some loc \<Rightarrow>
               let position = (lat loc, lng loc) in
               Some (filter (\<lambda>u.
                 if user_id u = user_id currentUser then False
                 else if \<not> isOnline u then False
                 else (case location u of
                         None \<Rightarrow> False
                       | Some ul \<Rightarrow>
                           if user_role u = user_role currentUser then False
                           else distKm (fst position) (snd position) (lat ul) (lng ul)
                                  \<le> visibilityRadius currentUser)) users)))"

definition UserList_visibleUsers ::
  "(real \<Rightarrow> real \<Rightarrow> real \<Rightarrow> real \<Rightarrow> real) \<Rightarrow> User option \<Rightarrow> User list \<Rightarrow> User list option" where
  "UserList_visibleUsers distKm cu users =
     (case cu of
        None \<Rightarrow> None
      | Some currentUser \<Rightarrow>
          (case location currentUser of
             None \<Rightarrow> None
           | Some loc \<Rightarrow>
               Some (filter (\<lambda>u.
                 if user_id u = user_id currentUser then False
                 else if \<not> isOnline u then False
                 else (case location u of
                         None \<Rightarrow> False
                       | Some ul \<Rightarrow>
                           if user_role u = user_role currentUser then False
                           else distKm (lat loc) (lng loc) (lat ul) (lng ul)
                                  \<le> visibilityRadius currentUser)) users)))"

text \<open>The visibility policy in the specification's words: the five conditions, conjoined.\<close>

definition visible_spec ::
  "(real \<Rightarrow> real \<Rightarrow> real \<Rightarrow> real \<Rightarrow> real) \<Rightarrow> User \<Rightarrow> Location \<Rightarrow> User \<Rightarrow> bool" where
  "visible_spec distKm viewer vpos e =
     (user_id e \<noteq> user_id viewer \<and>
      isOnline e \<and>
      location e \<noteq> None \<and>
      user_role e \<noteq> user_role viewer \<and>
      (case location e of
         None \<Rightarrow> False
       | Some epos \<Rightarrow> distKm (lat vpos) (lng vpos) (lat epos) (lng epos)
                       \<le> (if isPremium viewer then 5 else 1)))"

section \<open>Client store (store.ts)\<close>

text \<open>A row of the \<open>messages\<close> table (the argument of \<open>mapMessage\<close>).\<close>

record MessageRow =
  mrow_id :: string
  mrow_from_user :: string
  mrow_to_user :: string
  mrow_text :: string
  mrow_created_at :: string

text \<open>
  \<open>interface Message\<close>; \<open>id\<close>, \<open>text\<close>, \<open>from\<close> and \<open>to\<close> carry the prefix \<open>msg_\<close>.
  \<open>timestamp\<close> is in milliseconds.
\<close>

record Message =
  msg_id :: string
  from_user :: string
  to_user :: string
  msg_text :: string
  created_at :: string
  msg_from :: string
  msg_to :: string
  timestamp :: int

datatype RealtimeChannel = Channel string

record AppState =
  currentUser :: "User option"
  users :: "User list"
  messages :: "Message list"
  channel :: "RealtimeChannel option"

definition initialState :: AppState where
  "initialState = \<lparr> currentUser = None, users = [], messages = [], channel = None \<rparr>"

record PostgrestError =
  message :: string

text \<open>
  What the store reads from outside itself: the configuration flag, the backend's answer
  to each awaited request, and the two uses of \<open>Date\<close> (\<open>new Date(s).getTime()\<close> and
  \<open>new Date().toISOString()\<close>). An answer is the pair \<open>(data, error)\<close> that the client
  library resolves to; for the two snapshot queries only \<open>data\<close> is read.
\<close>

record Env =
  supabaseConfigured :: bool
  users_insert :: "string \<Rightarrow> Role \<Rightarrow> UserRow option \<times> PostgrestError option"
  users_select :: "UserRow list option"
  messages_select :: "string \<Rightarrow> MessageRow list option"
  messages_insert :: "string \<Rightarrow> string \<Rightarrow> string \<Rightarrow> MessageRow option \<times> PostgrestError option"
  Date_getTime :: "string \<Rightarrow> int"
  Date_now_ISO :: string

text \<open>What an operation does to the outside: the requests it issues, in order, and its console output.\<close>

datatype UserPatch =
    PatchLocation real real string
  | PatchOnline bool
  | PatchPremium bool

datatype Effect =
    UsersInsert string Role bool bool
  | UsersSelect
  | MessagesSelect string
  | ChannelSubscribe string
  | UsersUpdate string UserPatch
  | MessagesInsert string string string
  | UsersDelete string
  | RemoveChannel RealtimeChannel
  | OnBeforeUnloadDelete string
  | ConsoleError string

text \<open>The value an operation's promise resolves to: \<open>undefined\<close>, \<open>null\<close> or a string.\<close>

datatype JsValue = Undefined | Null | Str string

definition mapMessage :: "Env \<Rightarrow> MessageRow \<Rightarrow> Message" where
  "mapMessage env row =
     \<lparr> msg_id = mrow_id row,
       from_user = mrow_from_user row,
       to_user = mrow_to_user row,
       msg_text = mrow_text row,
       created_at = mrow_created_at row,
       msg_from = mrow_from_user row,
       msg_to = mrow_to_user row,
       timestamp = Date_getTime env (mrow_created_at row) \<rparr>"

subsection \<open>Realtime handlers\<close>

datatype UsersPayload = INSERT UserRow | UPDATE UserRow | DELETE string

definition usersHandler :: "UsersPayload \<Rightarrow> AppState \<Rightarrow> AppState" where
  "usersHandler payload st =
     (case payload of
        INSERT new \<Rightarrow>
          let newUser = mapUser new in
          st\<lparr> users := users st @ [newUser] \<rparr>
      | UPDATE new \<Rightarrow>
          let updatedUser = mapUser new;
              st1 = st\<lparr> users := map (\<lambda>u. if user_id u = user_id updatedUser then updatedUser else u)
                                      (users st) \<rparr>
          in (case currentUser st1 of
                None \<Rightarrow> st1
              | Some cu \<Rightarrow>
                  if user_id cu = user_id updatedUser
                  then st1\<lparr> currentUser := Some updatedUser \<rparr>
                  else st1)
      | DELETE old_id \<Rightarrow>
          st\<lparr> users := filter (\<lambda>u. user_id u \<noteq> old_id) (users st) \<rparr>)"

definition messagesHandler :: "Env \<Rightarrow> MessageRow \<Rightarrow> AppState \<Rightarrow> AppState" where
  "messagesHandler env new st =
     (let newMessage = mapMessage env new in
      case currentUser st of
        None \<Rightarrow> st
      | Some cu \<Rightarrow>
          if from_user newMessage = user_id cu \<or> to_user newMessage = user_id cu
          then (if find (\<lambda>m. msg_id m = msg_id newMessage) (messages st) = None
                then st\<lparr> messages := messages st @ [newMessage] \<rparr>
                else st)
          else st)"

text \<open>The subscription delivers notifications one at a time; each runs its handler to completion.\<close>

datatype Notification = UsersChange UsersPayload | MessageInserted MessageRow

fun notify :: "Env \<Rightarrow> Notification \<Rightarrow> AppState \<Rightarrow> AppState" where
  "notify env (UsersChange payload) st = usersHandler payload st"
| "notify env (MessageInserted new) st = messagesHandler env new st"

fun reconcile :: "Env \<Rightarrow> Notification list \<Rightarrow> AppState \<Rightarrow> AppState" where
  "reconcile env [] st = st"
| "reconcile env (n # ns) st = reconcile env ns (notify env n st)"

subsection \<open>Operations\<close>

text \<open>
  Each operation returns the value its promise resolves to, the new state and the effects
  it had. An awaited request is one effect and one answer read from the environment.
\<close>

definition connect :: "Env \<Rightarrow> string \<Rightarrow> Role \<Rightarrow> AppState \<Rightarrow> JsValue \<times> AppState \<times> Effect list" where
  "connect env name role st =
     (if \<not> supabaseConfigured env
      then (Str ''Supabase is not configured. Please set VITE_SUPABASE_URL and VITE_SUPABASE_ANON_KEY.'',
            st, [])
      else
        (case users_insert env name role of
           (Some userData, None) \<Rightarrow>
             let cu = mapUser userData;
                 st1 = st\<lparr> currentUser := Some cu \<rparr>;
                 st2 = (case users_select env of
                          None \<Rightarrow> st1
                        | Some allUsers \<Rightarrow> st1\<lparr> users := map mapUser allUsers \<rparr>);
                 st3 = (case messages_select env (user_id cu) of
                          None \<Rightarrow> st2
                        | Some existingMessages \<Rightarrow>
                            st2\<lparr> messages := map (mapMessage env) existingMessages \<rparr>);
                 st4 = st3\<lparr> channel := Some (Channel ''rideconnect'') \<rparr>
             in (Null, st4,
                 [UsersInsert name role False False, UsersSelect, MessagesSelect (user_id cu),
                  ChannelSubscribe ''rideconnect'', OnBeforeUnloadDelete (user_id cu)])
         | (_, error) \<Rightarrow>
             (Str (case error of
                     None \<Rightarrow> ''Failed to connect. Please try again.''
                   | Some e \<Rightarrow> if message e \<noteq> [] then message e
                                else ''Failed to connect. Please try again.''),
              st,
              [UsersInsert name role False False, ConsoleError ''Failed to create user:''])))"

definition updateLocation :: "Env \<Rightarrow> Location \<Rightarrow> AppState \<Rightarrow> JsValue \<times> AppState \<times> Effect list" where
  "updateLocation env loc st =
     (case currentUser st of
        None \<Rightarrow> (Undefined, st, [])
      | Some cu \<Rightarrow>
          (Undefined,
           st\<lparr> currentUser :=
                 Some (cu\<lparr> user_lat := Some (lat loc), user_lng := Some (lng loc),
                           location := Some loc \<rparr>) \<rparr>,
           [UsersUpdate (user_id cu) (PatchLocation (lat loc) (lng loc) (Date_now_ISO env))]))"

definition toggleOnline :: "Env \<Rightarrow> bool \<Rightarrow> AppState \<Rightarrow> JsValue \<times> AppState \<times> Effect list" where
  "toggleOnline env b st =
     (case currentUser st of
        None \<Rightarrow> (Undefined, st, [])
      | Some cu \<Rightarrow>
          (Undefined,
           st\<lparr> currentUser := Some (cu\<lparr> is_online := b, isOnline := b \<rparr>) \<rparr>,
           [UsersUpdate (user_id cu) (PatchOnline b)]))"

definition togglePremium :: "Env \<Rightarrow> bool \<Rightarrow> AppState \<Rightarrow> JsValue \<times> AppState \<times> Effect list" where
  "togglePremium env b st =
     (case currentUser st of
        None \<Rightarrow> (Undefined, st, [])
      | Some cu \<Rightarrow>
          (Undefined,
           st\<lparr> currentUser := Some (cu\<lparr> is_premium := b, isPremium := b \<rparr>) \<rparr>,
           [UsersUpdate (user_id cu) (PatchPremium b)]))"

text \<open>
  \<open>sendMessage\<close> after its \<open>await\<close>: it reads the answer, then reads the message log again
  from the store as it is at that moment.
\<close>

definition sendMessage_resume ::
  "Env \<Rightarrow> MessageRow option \<times> PostgrestError option \<Rightarrow> AppState \<Rightarrow> AppState \<times> Effect list" where
  "sendMessage_resume env answer st =
     (case answer of
        (_, Some e) \<Rightarrow> (st, [ConsoleError ''Failed to send message:''])
      | (None, None) \<Rightarrow> (st, [])
      | (Some d, None) \<Rightarrow>
          let msg = mapMessage env d in
          if find (\<lambda>m. msg_id m = msg_id msg) (messages st) = None
          then (st\<lparr> messages := messages st @ [msg] \<rparr>, [])
          else (st, []))"

definition sendMessage :: "Env \<Rightarrow> string \<Rightarrow> string \<Rightarrow> AppState \<Rightarrow> JsValue \<times> AppState \<times> Effect list" where
  "sendMessage env to txt st =
     (case currentUser st of
        None \<Rightarrow> (Undefined, st, [])
      | Some cu \<Rightarrow>
          let (st', effs) = sendMessage_resume env (messages_insert env (user_id cu) to txt) st
          in (Undefined, st', MessagesInsert (user_id cu) to txt # effs))"

definition cleanup :: "AppState \<Rightarrow> JsValue \<times> AppState \<times> Effect list" where
  "cleanup st =
     (Undefined,
      \<lparr> currentUser = None, users = [], messages = [], channel = None \<rparr>,
      (case channel st of None \<Rightarrow> [] | Some c \<Rightarrow> [RemoveChannel c]) @
      (case currentUser st of None \<Rightarrow> [] | Some cu \<Rightarrow> [UsersDelete (user_id cu)]))"

section \<open>Route summarizer (MapView.tsx)\<close>

subsection \<open>String and number primitives\<close>

text \<open>\<open>String.prototype.toUpperCase\<close>, \<open>charAt\<close>, \<open>slice\<close> and \<open>replace(/-/g, " ")\<close> on ASCII text.\<close>

definition toUpperCase_char :: "char \<Rightarrow> char" where
  "toUpperCase_char c =
     (case map_of (zip ''abcdefghijklmnopqrstuvwxyz'' ''ABCDEFGHIJKLMNOPQRSTUVWXYZ'') c of
        None \<Rightarrow> c
      | Some C \<Rightarrow> C)"

definition toUpperCase :: "string \<Rightarrow> string" where
  "toUpperCase s = map toUpperCase_char s"

definition charAt :: "string \<Rightarrow> nat \<Rightarrow> string" where
  "charAt s i = (if i < length s then [s ! i] else [])"

definition slice :: "string \<Rightarrow> nat \<Rightarrow> string" where
  "slice s start = drop start s"

definition replace_hyphens :: "string \<Rightarrow> string" where
  "replace_hyphens s = map (\<lambda>c. if c = CHR ''-'' then CHR '' '' else c) s"

definition capitalize :: "string \<Rightarrow> string" where
  "capitalize s = toUpperCase (charAt s 0) @ replace_hyphens (slice s 1)"

text \<open>
  \<open>Math.round\<close> (ties towards plus infinity), \<open>Math.floor\<close> and the remainder operator
  \<open>%\<close> (the quotient is truncated towards zero). All three are exact on doubles.
\<close>

definition Math_round :: "real \<Rightarrow> int" where
  "Math_round x = \<lfloor>x + 1 / 2\<rfloor>"

definition Math_floor :: "real \<Rightarrow> int" where
  "Math_floor x = \<lfloor>x\<rfloor>"

definition js_rem :: "real \<Rightarrow> real \<Rightarrow> real" where
  "js_rem x y = x - y * of_int (if 0 \<le> x / y then \<lfloor>x / y\<rfloor> else \<lceil>x / y\<rceil>)"

text \<open>
  The result of an arithmetic operation is the double nearest to the exact result, the
  one with the even significand on a tie. \<open>expo x\<close> is the binary exponent of a positive
  \<open>x\<close> (\<open>2 ^ expo x \<le> x < 2 ^ (expo x + 1)\<close>); a double has 53 significant bits, and
  below \<open>2 ^ - 1022\<close> the spacing stays \<open>2 ^ - 1074\<close>. There is no overflow in the model:
  a result beyond the largest double is outside it.
\<close>

function expo :: "real \<Rightarrow> int" where
  "expo x = (if x \<le> 0 then 0
             else if 2 \<le> x then expo (x / 2) + 1
             else if x < 1 then expo (x * 2) - 1
             else 0)"
  by pat_completeness auto
termination
proof (relation "measure (\<lambda>x. if 1 \<le> x then nat \<lfloor>x\<rfloor> else nat \<lceil>1 / x\<rceil> + 1)")
  show "wf (measure (\<lambda>x::real. if 1 \<le> x then nat \<lfloor>x\<rfloor> else nat \<lceil>1 / x\<rceil> + 1))"
    by simp
next
  fix x :: real
  assume "\<not> x \<le> 0" and "2 \<le> x"
  then have "\<lfloor>x / 2\<rfloor> \<le> \<lfloor>x - 1\<rfloor>" by (intro floor_mono) simp
  then have "\<lfloor>x / 2\<rfloor> < \<lfloor>x\<rfloor>" by simp
  moreover have "0 < \<lfloor>x\<rfloor>" using \<open>2 \<le> x\<close> by simp
  ultimately show "(x / 2, x) \<in> measure (\<lambda>x. if 1 \<le> x then nat \<lfloor>x\<rfloor> else nat \<lceil>1 / x\<rceil> + 1)"
    using \<open>2 \<le> x\<close> by simp
next
  fix x :: real
  assume pos: "\<not> x \<le> 0" and "\<not> 2 \<le> x" and lt: "x < 1"
  then have inv: "1 < 1 / x" by simp
  then have c2: "2 \<le> \<lceil>1 / x\<rceil>" by linarith
  show "(x * 2, x) \<in> measure (\<lambda>x. if 1 \<le> x then nat \<lfloor>x\<rfloor> else nat \<lceil>1 / x\<rceil> + 1)"
  proof (cases "1 \<le> x * 2")
    case True
    then have "\<lfloor>x * 2\<rfloor> = 1" using lt by linarith
    with True c2 lt show ?thesis by simp
  next
    case False
    then have "2 \<le> 1 / x" using pos by (simp add: field_simps)
    then have "1 / (x * 2) \<le> 1 / x - 1" using pos by (simp add: field_simps)
    then have "\<lceil>1 / (x * 2)\<rceil> \<le> \<lceil>1 / x - 1\<rceil>" by (rule ceiling_mono)
    then have "\<lceil>1 / (x * 2)\<rceil> < \<lceil>1 / x\<rceil>" by simp
    with False lt c2 pos show ?thesis by simp
  qed
qed

declare expo.simps [simp del]

definition pow2 :: "int \<Rightarrow> real" where
  "pow2 e = (if 0 \<le> e then 2 ^ nat e else 1 / 2 ^ nat (- e))"

definition round_even :: "real \<Rightarrow> int" where
  "round_even x =
     (let f = \<lfloor>x\<rfloor> in
      if x - of_int f < 1 / 2 then f
      else if 1 / 2 < x - of_int f then f + 1
      else if even f then f else f + 1)"

definition binary64 :: "real \<Rightarrow> real" where
  "binary64 x =
     (if x = 0 then 0
      else let u = pow2 (max (expo \<bar>x\<bar>) (- 1022) - 52)
           in of_int (round_even (x / u)) * u)"

text \<open>The decimal digits of an integer.\<close>

definition digit_char :: "nat \<Rightarrow> char" where
  "digit_char d = ''0123456789'' ! (d mod 10)"

function show_nat :: "nat \<Rightarrow> string" where
  "show_nat n = (if n < 10 then [digit_char n] else show_nat (n div 10) @ [digit_char (n mod 10)])"
  by pat_completeness auto
termination
  by (relation "measure id") auto

declare show_nat.simps [simp del]

definition show_int :: "int \<Rightarrow> string" where
  "show_int i = (if i < 0 then CHR ''-'' # show_nat (nat (- i)) else show_nat (nat i))"

text \<open>
  What a template literal prints for an integral number \<open>n\<close>: its decimal digits as long
  as \<open>|n| \<le> 2 ^ 53\<close>, where every integer is a double. Beyond that the engine prints
  the shortest digits that read back as the same double, padded with zeros (\<open>2 ^ 64\<close>
  prints as 18446744073709552000), and from \<open>10 ^ 21\<close> in exponent notation (1e+21);
  that conversion is the parameter \<open>big\<close>.
\<close>

definition Number_toString :: "(real \<Rightarrow> string) \<Rightarrow> int \<Rightarrow> string" where
  "Number_toString big n = (if \<bar>n\<bar> \<le> 2 ^ 53 then show_int n else big (of_int n))"

text \<open>
  \<open>x.toFixed(1)\<close>: after the sign, for \<open>|x| < 10 ^ 21\<close> the integer \<open>n\<close> nearest to
  \<open>10 * |x|\<close> (the larger one on a tie), its digits printed with a point before the
  last one; from \<open>10 ^ 21\<close> what \<open>Number::toString\<close> prints for \<open>|x|\<close>.
\<close>

definition toFixed1 :: "(real \<Rightarrow> string) \<Rightarrow> real \<Rightarrow> string" where
  "toFixed1 big x =
     (let m = (if 10 ^ 21 \<le> \<bar>x\<bar> then big \<bar>x\<bar>
               else let n = nat \<lfloor>\<bar>x\<bar> * 10 + 1 / 2\<rfloor>
                    in show_nat (n div 10) @ ''.'' @ show_nat (n mod 10))
      in if x < 0 then CHR ''-'' # m else m)"

definition formatDuration :: "(real \<Rightarrow> string) \<Rightarrow> real \<Rightarrow> string" where
  "formatDuration big minutes =
     (if minutes < 1 then ''< 1 min''
      else if minutes < 60 then Number_toString big (Math_round minutes) @ '' min''
      else let hours = Math_floor (binary64 (minutes / 60));
               mins = Math_round (js_rem minutes 60)
           in Number_toString big hours @ ''h '' @ Number_toString big mins @ ''m'')"

definition formatDistance :: "(real \<Rightarrow> string) \<Rightarrow> real \<Rightarrow> string" where
  "formatDistance big meters =
     (if meters < 1000 then Number_toString big (Math_round meters) @ '' m''
      else toFixed1 big (binary64 (meters / 1000)) @ '' km'')"

subsection \<open>The directions response\<close>

text \<open>
  The parsed response of the directions provider, with the fields \<open>fetchRoute\<close> reads.
  \<open>modifier\<close>, \<open>name\<close> and \<open>routes\<close> may be absent (the code guards each of them).
\<close>

record Maneuver =
  maneuver_type :: string
  modifier :: "string option"

record Step =
  maneuver :: Maneuver
  step_name :: "string option"
  step_distance :: real
  step_duration :: real

record Leg =
  leg_steps :: "Step list"

record Route =
  geometry_coordinates :: "(real \<times> real) list"
  legs :: "Leg list"
  route_distance :: real
  route_duration :: real

record OsrmData =
  code :: string
  routes :: "Route list option"

text \<open>
  The outcome of \<open>await fetch(url)\<close> followed by \<open>await response.json()\<close>: either
  promise may reject; a response carries its \<open>ok\<close> flag.
\<close>

datatype JsonOutcome = JsonRejects | JsonData OsrmData

datatype FetchOutcome = FetchRejects | Response bool JsonOutcome

record RouteStep =
  instruction :: string
  distance :: real
  duration :: real

record RouteData =
  coordinates :: "(real \<times> real) list"
  totalDistance :: real
  totalDuration :: real
  steps :: "RouteStep list"

text \<open>What is thrown inside the \<open>try\<close> block.\<close>

datatype Thrown = FetchFailed | RequestFailed | JsonFailed | NoRouteFound | TypeError

text \<open>The separator between maneuver and road name: a space, U+2014 in UTF-8, a space.\<close>

definition em_dash_sep :: string where
  "em_dash_sep = [CHR '' '', CHR 0xE2, CHR 0x80, CHR 0x94, CHR '' '']"

definition stepInstruction :: "Step \<Rightarrow> string" where
  "stepInstruction step =
     (if maneuver_type (maneuver step) = ''depart'' then ''Start''
      else if maneuver_type (maneuver step) = ''arrive'' then ''Arrive at destination''
      else capitalize (maneuver_type (maneuver step)) @
           (case modifier (maneuver step) of
              None \<Rightarrow> []
            | Some m \<Rightarrow> if m \<noteq> [] then '' '' @ m else []) @
           em_dash_sep @
           (case step_name step of
              None \<Rightarrow> ''unnamed road''
            | Some n \<Rightarrow> if n \<noteq> [] then n else ''unnamed road''))"

definition mapStep :: "Step \<Rightarrow> RouteStep" where
  "mapStep step =
     \<lparr> instruction = stepInstruction step,
       distance = step_distance step,
       duration = step_duration step \<rparr>"

definition fetchRoute_try :: "FetchOutcome \<Rightarrow> Thrown + RouteData" where
  "fetchRoute_try outcome =
     (case outcome of
        FetchRejects \<Rightarrow> Inl FetchFailed
      | Response ok body \<Rightarrow>
          if \<not> ok then Inl RequestFailed
          else (case body of
                  JsonRejects \<Rightarrow> Inl JsonFailed
                | JsonData data \<Rightarrow>
                    if code data \<noteq> ''Ok'' then Inl NoRouteFound
                    else (case routes data of
                            None \<Rightarrow> Inl NoRouteFound
                          | Some [] \<Rightarrow> Inl NoRouteFound
                          | Some (route # _) \<Rightarrow>
                              (case legs route of
                                 [] \<Rightarrow> Inl TypeError
                               | leg # _ \<Rightarrow>
                                   Inr \<lparr> coordinates =
                                           map (\<lambda>c. (snd c, fst c)) (geometry_coordinates route),
                                         totalDistance = binary64 (route_distance route / 1000),
                                         totalDuration = binary64 (route_duration route / 60),
                                         steps = map mapStep (leg_steps leg) \<rparr>))))"

text \<open>
  \<open>fetchRoute\<close>: the provider is a function of the two end points; whatever is thrown
  inside \<open>try\<close> is caught and \<open>null\<close> (\<open>None\<close>) is returned.
\<close>

definition fetchRoute ::
  "(real \<times> real \<Rightarrow> real \<times> real \<Rightarrow> FetchOutcome) \<Rightarrow> real \<times> real \<Rightarrow> real \<times> real \<Rightarrow> RouteData option" where
  "fetchRoute provider from to =
     (case fetchRoute_try (provider from to) of
        Inl err \<Rightarrow> None
      | Inr routeData \<Rightarrow> Some routeData)"

section \<open>Specification-side definitions\<close>




text \<open>The number that a string of decimal digits denotes.\<close>

definition digit_value :: "char \<Rightarrow> nat" where
  "digit_value c = (case map_of (zip ''0123456789'' [0, 1, 2, 3, 4, 5, 6, 7, 8, 9]) c of
                      None \<Rightarrow> 0
                    | Some d \<Rightarrow> d)"

definition digits_value :: "string \<Rightarrow> nat" where
  "digits_value s = foldl (\<lambda>a c. 10 * a + digit_value c) 0 s"

text \<open>The three failures of the directions provider that the specification names.\<close>

definition route_unavailable :: "FetchOutcome \<Rightarrow> bool" where
  "route_unavailable outcome =
     (case outcome of
        FetchRejects \<Rightarrow> True
      | Response ok body \<Rightarrow>
          (if \<not> ok then True
           else (case body of
                   JsonRejects \<Rightarrow> False
                 | JsonData data \<Rightarrow> (case routes data of None \<Rightarrow> True | Some rs \<Rightarrow> rs = []))))"

text \<open>The backend rejects a creation: the answer carries an error, or (for \<open>connect\<close>) no row.\<close>

definition rejects_user :: "UserRow option \<times> PostgrestError option \<Rightarrow> bool" where
  "rejects_user answer = (case answer of (Some d, None) \<Rightarrow> False | _ \<Rightarrow> True)"

definition rejects_message :: "MessageRow option \<times> PostgrestError option \<Rightarrow> bool" where
  "rejects_message answer = (case answer of (_, Some e) \<Rightarrow> True | _ \<Rightarrow> False)"

definition error_text :: "PostgrestError option \<Rightarrow> string" where
  "error_text error =
     (case error of
        None \<Rightarrow> ''Failed to connect. Please try again.''
      | Some e \<Rightarrow> if message e = [] then ''Failed to connect. Please try again.'' else message e)"

text \<open>The rows that a list of notifications inserts into the message feed, in arrival order.\<close>

fun message_rows :: "Notification list \<Rightarrow> MessageRow list" where
  "message_rows [] = []"
| "message_rows (MessageInserted new # ns) = new # message_rows ns"
| "message_rows (UsersChange payload # ns) = message_rows ns"

text \<open>
  Every entity insert of a list of notifications carries an id that the roster does not
  hold at the moment the notification is applied.
\<close>

fun fresh_inserts :: "Env \<Rightarrow> Notification list \<Rightarrow> AppState \<Rightarrow> bool" where
  "fresh_inserts env [] st = True"
| "fresh_inserts env (n # ns) st =
     ((case n of
         UsersChange (INSERT new) \<Rightarrow> urow_id new \<notin> set (map user_id (users st))
       | _ \<Rightarrow> True) \<and>
      fresh_inserts env ns (notify env n st))"

definition count_id :: "string \<Rightarrow> Message list \<Rightarrow> nat" where
  "count_id i ms = length (filter (\<lambda>m. msg_id m = i) ms)"

section \<open>Example inputs\<close>

text \<open>
  A distance function for the examples, in place of \<open>getDistance\<close> of \<open>src/utils.ts\<close>,
  which is not among the sources: 111 km for each degree of latitude or longitude
  between the two points.
\<close>

definition ex_distKm :: "real \<Rightarrow> real \<Rightarrow> real \<Rightarrow> real \<Rightarrow> real" where
  "ex_distKm lat1 lng1 lat2 lng2 = 111 * (\<bar>lat2 - lat1\<bar> + \<bar>lng2 - lng1\<bar>)"

definition ex_pos :: Location where
  "ex_pos = \<lparr> lat = 0, lng = 0 \<rparr>"

definition ex_far :: Location where
  "ex_far = \<lparr> lat = 0, lng = 180 \<rparr>"

definition ex_user :: "string \<Rightarrow> Role \<Rightarrow> bool \<Rightarrow> Location option \<Rightarrow> User" where
  "ex_user i r online loc =
     \<lparr> user_id = i, user_name = i, user_role = r,
       user_lat = map_option lat loc, user_lng = map_option lng loc,
       is_online = online, is_premium = False,
       location = loc, isOnline = online, isPremium = False \<rparr>"

definition ex_viewer :: User where
  "ex_viewer = ex_user ''u1'' passenger True (Some ex_pos)"

definition ex_roster :: "User list" where
  "ex_roster =
     [ex_viewer,
      ex_user ''u2'' driver False (Some ex_pos),
      ex_user ''u3'' driver True None,
      ex_user ''u4'' passenger True (Some ex_pos),
      ex_user ''u5'' driver True (Some ex_pos),
      ex_user ''u6'' driver True (Some ex_far)]"

definition ex_getTime :: "string \<Rightarrow> int" where
  "ex_getTime s =
     (if s = ''1970-01-01T00:00:00.001Z'' then 1
      else if s = ''1970-01-01T00:00:00.002Z'' then 2
      else 0)"

definition ex_urow :: UserRow where
  "ex_urow =
     \<lparr> urow_id = ''u1'', urow_name = ''Ann'', urow_role = passenger,
       urow_lat = None, urow_lng = None,
       urow_is_online = False, urow_is_premium = False \<rparr>"

definition ex_urow2 :: UserRow where
  "ex_urow2 =
     \<lparr> urow_id = ''u2'', urow_name = ''Bob'', urow_role = driver,
       urow_lat = Some 1, urow_lng = Some 2,
       urow_is_online = True, urow_is_premium = False \<rparr>"

definition ex_mrow1 :: MessageRow where
  "ex_mrow1 =
     \<lparr> mrow_id = ''m1'', mrow_from_user = ''u2'', mrow_to_user = ''u1'',
       mrow_text = ''hi'', mrow_created_at = ''1970-01-01T00:00:00.001Z'' \<rparr>"

definition ex_mrow2 :: MessageRow where
  "ex_mrow2 =
     \<lparr> mrow_id = ''m2'', mrow_from_user = ''u1'', mrow_to_user = ''u2'',
       mrow_text = ''hello'', mrow_created_at = ''1970-01-01T00:00:00.002Z'' \<rparr>"

text \<open>A backend that accepts every creation, and one that refuses every creation.\<close>

definition ex_env :: Env where
  "ex_env =
     \<lparr> supabaseConfigured = True,
       users_insert = (\<lambda>name role. (Some ex_urow, None)),
       users_select = Some [ex_urow],
       messages_select = (\<lambda>i. Some []),
       messages_insert = (\<lambda>from to txt. (Some ex_mrow2, None)),
       Date_getTime = ex_getTime,
       Date_now_ISO = ''1970-01-01T00:00:00.000Z'' \<rparr>"

definition ex_env_reject :: Env where
  "ex_env_reject =
     ex_env \<lparr> users_insert := (\<lambda>name role. (None, Some \<lparr> message = ''permission denied'' \<rparr>)),
              messages_insert := (\<lambda>from to txt. (None, Some \<lparr> message = ''permission denied'' \<rparr>)) \<rparr>"

text \<open>The state after \<open>connect\<close> against \<open>ex_env\<close>.\<close>

definition ex_connected :: AppState where
  "ex_connected =
     \<lparr> currentUser = Some (mapUser ex_urow), users = [mapUser ex_urow], messages = [],
       channel = Some (Channel ''rideconnect'') \<rparr>"

text \<open>
  The double that the literal \<open>1e24\<close> denotes, and what the engine prints for the one
  large number the examples reach: \<open>1e21\<close> prints as 1e+21.
\<close>

definition ex_1e24 :: real where
  "ex_1e24 = 999999999999999983222784"

definition ex_big :: "real \<Rightarrow> string" where
  "ex_big x = (if x = 10 ^ 21 then ''1e+21'' else [])"


section \<open>Theorems\<close>

subsection \<open>Visibility filter\<close>

lemma visible_filter_eq:
  "(if user_id u = user_id v then False
    else if \<not> isOnline u then False
    else (case location u of
            None \<Rightarrow> False
          | Some ul \<Rightarrow>
              if user_role u = user_role v then False
              else distKm (lat p) (lng p) (lat ul) (lng ul) \<le> visibilityRadius v))
   = visible_spec distKm v p u"
  by (auto simp: visible_spec_def visibilityRadius_def split: option.splits)

text \<open>
  C1. For a viewer with a position and any roster, each of the two components computes
  exactly the roster entities (in roster order) that satisfy all five conditions: another
  id, online, a position, the other role, and a distance from the viewer of at most 5 km
  for a premium viewer and 1 km otherwise. The distance function is the one the
  components import; the statement holds for whichever function that is.
\<close>

theorem visibleUsers_exact:
  assumes "location viewer = Some vpos"
  shows "MapView_visibleUsers distKm (Some viewer) roster
           = Some (filter (visible_spec distKm viewer vpos) roster) \<and>
         UserList_visibleUsers distKm (Some viewer) roster
           = Some (filter (visible_spec distKm viewer vpos) roster)"
  unfolding MapView_visibleUsers_def UserList_visibleUsers_def
  using assms
  by (simp only: option.case Let_def fst_conv snd_conv visible_filter_eq simp_thms)

theorem visibleUsers_exact_witness:
  "location ex_viewer = Some ex_pos \<and>
   MapView_visibleUsers ex_distKm (Some ex_viewer) ex_roster
     = Some [ex_user ''u5'' driver True (Some ex_pos)] \<and>
   UserList_visibleUsers ex_distKm (Some ex_viewer) ex_roster
     = Some [ex_user ''u5'' driver True (Some ex_pos)]"
proof -
  have loc: "location ex_viewer = Some ex_pos"
    by (simp add: ex_viewer_def ex_user_def)
  have "filter (visible_spec ex_distKm ex_viewer ex_pos) ex_roster
          = [ex_user ''u5'' driver True (Some ex_pos)]"
    by (simp add: visible_spec_def ex_roster_def ex_viewer_def ex_user_def ex_pos_def
          ex_far_def ex_distKm_def)
  with loc visibleUsers_exact [OF loc, of ex_distKm ex_roster]
  show ?thesis by simp
qed

subsection \<open>Route summarizer\<close>

lemma fetchRoute_success:
  assumes "provider from to = Response True (JsonData data)"
      and "code data = ''Ok''"
      and "routes data = Some (route # rs)"
      and "legs route = leg # ls"
  shows "fetchRoute provider from to =
           Some \<lparr> coordinates = map (\<lambda>c. (snd c, fst c)) (geometry_coordinates route),
                  totalDistance = binary64 (route_distance route / 1000),
                  totalDuration = binary64 (route_duration route / 60),
                  steps = map mapStep (leg_steps leg) \<rparr>"
  using assms by (simp add: fetchRoute_def fetchRoute_try_def)

text \<open>
  C5. When the directions provider is unreachable, answers with a non-success status or
  answers with no route, \<open>fetchRoute\<close> returns \<open>null\<close>; and so it does for anything
  else thrown inside its \<open>try\<close> block: nothing is propagated to the caller.
\<close>

theorem fetchRoute_no_route:
  "(route_unavailable (provider from to) \<longrightarrow> fetchRoute provider from to = None) \<and>
   (\<forall>err. fetchRoute_try (provider from to) = Inl err \<longrightarrow> fetchRoute provider from to = None)"
  by (auto simp: fetchRoute_def fetchRoute_try_def route_unavailable_def
        split: FetchOutcome.splits JsonOutcome.splits option.splits list.splits if_splits)

theorem fetchRoute_no_route_witness:
  "route_unavailable ((\<lambda>from to. Response False JsonRejects) (0, 0) (1, 1)) \<and>
   fetchRoute_try ((\<lambda>from to. Response False JsonRejects) (0, 0) (1, 1)) = Inl RequestFailed \<and>
   fetchRoute (\<lambda>from to. Response False JsonRejects) (0, 0) (1, 1) = None"
  using fetchRoute_no_route [of "\<lambda>from to. Response False JsonRejects" "(0, 0)" "(1, 1)"]
  by (simp add: route_unavailable_def fetchRoute_try_def)

subsection \<open>Operations without a session\<close>

text \<open>
  C10. Invoked while there is no current user, each of \<open>updateLocation\<close>,
  \<open>toggleOnline\<close>, \<open>togglePremium\<close> and \<open>sendMessage\<close> returns \<open>undefined\<close>, leaves
  the whole state (current user, roster, message log, channel) as it is, and issues no
  request.
\<close>

theorem no_session_no_effect:
  assumes "currentUser st = None"
  shows "updateLocation env loc st = (Undefined, st, []) \<and>
         toggleOnline env b st = (Undefined, st, []) \<and>
         togglePremium env b st = (Undefined, st, []) \<and>
         sendMessage env to txt st = (Undefined, st, [])"
  using assms
  by (simp add: updateLocation_def toggleOnline_def togglePremium_def sendMessage_def)

theorem no_session_no_effect_witness:
  "currentUser initialState = None \<and>
   updateLocation ex_env ex_pos initialState = (Undefined, initialState, []) \<and>
   toggleOnline ex_env True initialState = (Undefined, initialState, []) \<and>
   togglePremium ex_env True initialState = (Undefined, initialState, []) \<and>
   sendMessage ex_env ''u2'' ''hello'' initialState = (Undefined, initialState, [])"
proof -
  have none: "currentUser initialState = None"
    by (simp add: initialState_def)
  from none no_session_no_effect [OF none, of ex_env ex_pos True "''u2''" "''hello''"]
  show ?thesis by simp
qed

subsection \<open>Connecting\<close>

text \<open>The example state \<open>ex_connected\<close> is the one \<open>connect\<close> reaches from the initial state.\<close>

lemma connect_ex_env:
  "connect ex_env ''Ann'' passenger initialState
     = (Null, ex_connected,
        [UsersInsert ''Ann'' passenger False False, UsersSelect, MessagesSelect ''u1'',
         ChannelSubscribe ''rideconnect'', OnBeforeUnloadDelete ''u1''])"
  by (simp add: connect_def ex_env_def initialState_def ex_connected_def mapUser_def
        ex_urow_def Let_def)

subsection \<open>Message log: order\<close>

lemma usersHandler_messages: "messages (usersHandler payload st) = messages st"
  by (cases payload) (simp_all add: usersHandler_def Let_def split: option.splits)

lemma messagesHandler_messages:
  "messages (messagesHandler env new st) = messages st \<or>
   (find (\<lambda>m. msg_id m = mrow_id new) (messages st) = None \<and>
    messages (messagesHandler env new st) = messages st @ [mapMessage env new])"
  by (simp add: messagesHandler_def Let_def mapMessage_def split: option.splits)

lemma reconcile_append:
  "reconcile env (ns @ ms) st = reconcile env ms (reconcile env ns st)"
  by (induction ns arbitrary: st) simp_all

lemma reconcile_sorted:
  "sorted_wrt (<) (map timestamp (messages st) @
                   map timestamp (map (mapMessage env) (message_rows ns)))
   \<Longrightarrow> sorted_wrt (<) (map timestamp (messages (reconcile env ns st)))"
proof (induction ns arbitrary: st)
  case Nil
  then show ?case by simp
next
  case (Cons n ns)
  show ?case
  proof (cases n)
    case (UsersChange payload)
    with Cons show ?thesis by (simp add: usersHandler_messages)
  next
    case (MessageInserted new)
    from messagesHandler_messages [of env new st]
    consider "messages (notify env n st) = messages st"
      | "messages (notify env n st) = messages st @ [mapMessage env new]"
      using MessageInserted by auto
    then show ?thesis
    proof cases
      case 1
      from Cons.prems MessageInserted
      have "sorted_wrt (<) (map timestamp (messages st) @
              map timestamp (map (mapMessage env) (message_rows ns)))"
        by (simp add: sorted_wrt_append)
      with Cons.IH [of "notify env n st"] 1 show ?thesis by simp
    next
      case 2
      from Cons.prems MessageInserted
      have "sorted_wrt (<) (map timestamp (messages st @ [mapMessage env new]) @
              map timestamp (map (mapMessage env) (message_rows ns)))"
        by simp
      with Cons.IH [of "notify env n st"] 2 show ?thesis by simp
    qed
  qed
qed

text \<open>
  What the handler keeps: the log after a sequence of notifications is the log before it
  followed by some of the arriving messages, in arrival order.
\<close>

lemma reconcile_arrival_order:
  "\<exists>ks. subseq ks (map (mapMessage env) (message_rows ns)) \<and>
        messages (reconcile env ns st) = messages st @ ks"
proof (induction ns arbitrary: st)
  case Nil
  then show ?case by simp
next
  case (Cons n ns)
  obtain ks where ks: "subseq ks (map (mapMessage env) (message_rows ns))"
      "messages (reconcile env ns (notify env n st)) = messages (notify env n st) @ ks"
    using Cons.IH [of "notify env n st"] by blast
  show ?case
  proof (cases n)
    case (UsersChange payload)
    with ks show ?thesis by (auto simp: usersHandler_messages)
  next
    case (MessageInserted new)
    from messagesHandler_messages [of env new st]
    consider "messages (notify env n st) = messages st"
      | "messages (notify env n st) = messages st @ [mapMessage env new]"
      using MessageInserted by auto
    then show ?thesis
    proof cases
      case 1
      with ks MessageInserted show ?thesis by auto
    next
      case 2
      have "subseq (mapMessage env new # ks)
              (map (mapMessage env) (message_rows (n # ns)))"
        using ks(1) MessageInserted by simp
      moreover have "messages (reconcile env (n # ns) st)
                       = messages st @ (mapMessage env new # ks)"
        using ks(2) 2 by simp
      ultimately show ?thesis by blast
    qed
  qed
qed

text \<open>
  C2. The claim is that the log is ascending by creation timestamp after any sequence of
  inserts with distinct timestamps, whatever the order of their arrival. The handler
  appends in arrival order and nothing sorts the log. With a session for u1 and an empty
  log, two notifications that arrive with timestamp 2 first and timestamp 1 second leave
  the log as [2, 1], which is not ascending; and so does a message sent by u1
  (acknowledged with timestamp 2) followed by the late notification of an older message
  (timestamp 1).
\<close>

theorem message_order_violated:
  "distinct (map timestamp (map (mapMessage ex_env) [ex_mrow2, ex_mrow1])) \<and>
   map timestamp (messages (reconcile ex_env
       [MessageInserted ex_mrow2, MessageInserted ex_mrow1] ex_connected)) = [2, 1] \<and>
   \<not> sorted (map timestamp (messages (reconcile ex_env
       [MessageInserted ex_mrow2, MessageInserted ex_mrow1] ex_connected))) \<and>
   map timestamp (messages (reconcile ex_env [MessageInserted ex_mrow1]
       (fst (snd (sendMessage ex_env ''u2'' ''hello'' ex_connected))))) = [2, 1]"
  by (simp add: messagesHandler_def sendMessage_def sendMessage_resume_def mapMessage_def
        ex_env_def ex_mrow1_def ex_mrow2_def ex_connected_def mapUser_def ex_urow_def
        ex_getTime_def Let_def)

subsection \<open>Roster: entity inserts\<close>

lemma map_user_id_replace:
  "map user_id (map (\<lambda>u. if user_id u = user_id v then v else u) xs) = map user_id xs"
  by (induction xs) auto

lemma notify_user_ids:
  "map user_id (users (notify env n st)) =
     (case n of
        UsersChange (INSERT new) \<Rightarrow> map user_id (users st) @ [urow_id new]
      | UsersChange (UPDATE new) \<Rightarrow> map user_id (users st)
      | UsersChange (DELETE old_id) \<Rightarrow> filter (\<lambda>i. i \<noteq> old_id) (map user_id (users st))
      | MessageInserted new \<Rightarrow> map user_id (users st))"
proof (cases n)
  case (UsersChange payload)
  show ?thesis
  proof (cases payload)
    case (INSERT new)
    with UsersChange show ?thesis by (simp add: usersHandler_def mapUser_def)
  next
    case (UPDATE new)
    with UsersChange show ?thesis
      by (simp add: usersHandler_def Let_def map_user_id_replace split: option.splits)
  next
    case (DELETE old_id)
    with UsersChange show ?thesis
      by (simp add: usersHandler_def filter_map comp_def)
  qed
next
  case (MessageInserted new)
  then show ?thesis
    by (simp add: messagesHandler_def Let_def split: option.splits)
qed

lemma reconcile_distinct_ids:
  "distinct (map user_id (users st)) \<Longrightarrow> fresh_inserts env ns st
   \<Longrightarrow> distinct (map user_id (users (reconcile env ns st)))"
proof (induction ns arbitrary: st)
  case Nil
  then show ?case by simp
next
  case (Cons n ns)
  have "distinct (map user_id (users (notify env n st)))"
    using Cons.prems
    by (subst notify_user_ids) (auto split: Notification.splits UsersPayload.splits)
  moreover have "fresh_inserts env ns (notify env n st)"
    using Cons.prems by simp
  ultimately show ?case
    using Cons.IH by simp
qed

text \<open>
  C3, as stated, fails: an insert notification that carries the id of a roster member is
  appended all the same, and the roster then holds that id twice.
\<close>

theorem roster_insert_counterexample:
  "urow_id ex_urow \<in> set (map user_id (users ex_connected)) \<and>
   users (usersHandler (INSERT ex_urow) ex_connected) = users ex_connected @ [mapUser ex_urow] \<and>
   map user_id (users (reconcile ex_env [UsersChange (INSERT ex_urow)] ex_connected))
     = [''u1'', ''u1''] \<and>
   \<not> distinct (map user_id (users (reconcile ex_env [UsersChange (INSERT ex_urow)] ex_connected)))"
  by (simp add: usersHandler_def ex_connected_def mapUser_def ex_urow_def)

text \<open>
  C3, amended. The insert handler appends the carried entity to the roster whether or not
  its id is already there. Starting from a roster without repeated ids, the roster has no
  repeated id after any sequence of notifications in which every insert carries an id
  that the roster does not hold when it is applied.
\<close>

theorem roster_insert_appends:
  "users (usersHandler (INSERT new) st) = users st @ [mapUser new] \<and>
   (distinct (map user_id (users st)) \<and> fresh_inserts env ns st
      \<longrightarrow> distinct (map user_id (users (reconcile env ns st))))"
  by (simp add: reconcile_distinct_ids usersHandler_def)

theorem roster_insert_appends_witness:
  "distinct (map user_id (users ex_connected)) \<and>
   fresh_inserts ex_env
     [UsersChange (INSERT ex_urow2), UsersChange (UPDATE ex_urow), UsersChange (DELETE ''u2'')]
     ex_connected \<and>
   users (usersHandler (INSERT ex_urow2) ex_connected)
     = users ex_connected @ [mapUser ex_urow2] \<and>
   distinct (map user_id (users (reconcile ex_env
     [UsersChange (INSERT ex_urow2), UsersChange (UPDATE ex_urow), UsersChange (DELETE ''u2'')]
     ex_connected)))"
proof -
  have d: "distinct (map user_id (users ex_connected))"
    by (simp add: ex_connected_def)
  have f: "fresh_inserts ex_env
     [UsersChange (INSERT ex_urow2), UsersChange (UPDATE ex_urow), UsersChange (DELETE ''u2'')]
     ex_connected"
    by (simp add: usersHandler_def ex_connected_def mapUser_def ex_urow_def ex_urow2_def)
  from d f roster_insert_appends [of ex_urow2 ex_connected ex_env
     "[UsersChange (INSERT ex_urow2), UsersChange (UPDATE ex_urow), UsersChange (DELETE ''u2'')]"]
  show ?thesis by simp
qed

subsection \<open>Message log: the echo of a sent message\<close>

lemma count_id_zero_iff: "count_id i ms = 0 \<longleftrightarrow> find (\<lambda>m. msg_id m = i) ms = None"
  by (auto simp: count_id_def find_None_iff filter_empty_conv)

lemma sendMessage_appended:
  assumes "sendMessage env to txt st = (r, st', effs)"
      and "messages st' = messages st @ [m]"
  shows "count_id (msg_id m) (messages st) = 0"
  using assms
  by (auto simp: sendMessage_def sendMessage_resume_def Let_def count_id_zero_iff
      split: option.splits prod.splits if_splits)

lemma count_id_notify:
  assumes "count_id i (messages st) = 1"
  shows "count_id i (messages (notify env n st)) = 1"
proof (cases n)
  case (UsersChange payload)
  then show ?thesis using assms by (simp add: usersHandler_messages)
next
  case (MessageInserted new)
  have "find (\<lambda>m. msg_id m = i) (messages st) \<noteq> None"
    using assms count_id_zero_iff [of i "messages st"] by auto
  then have "find (\<lambda>m. msg_id m = mrow_id new) (messages st) = None \<Longrightarrow> mrow_id new \<noteq> i"
    by auto
  with MessageInserted assms show ?thesis
    by (auto simp: messagesHandler_def Let_def mapMessage_def count_id_def split: option.splits)
qed

lemma count_id_reconcile:
  "count_id i (messages st) = 1 \<Longrightarrow> count_id i (messages (reconcile env ns st)) = 1"
  by (induction ns arbitrary: st) (simp_all add: count_id_notify)

lemma messagesHandler_absorbs:
  assumes "count_id (mrow_id echo) (messages st) = 1"
  shows "messages (messagesHandler env echo st) = messages st"
proof -
  have "find (\<lambda>m. msg_id m = mrow_id echo) (messages st) \<noteq> None"
    using assms count_id_zero_iff [of "mrow_id echo" "messages st"] by auto
  then show ?thesis
    by (simp add: messagesHandler_def Let_def mapMessage_def split: option.splits)
qed

text \<open>
  The other interleaving: the echo arrives while \<open>sendMessage\<close> still awaits its
  answer. The handler appends the row, and \<open>sendMessage\<close>, resumed on that state with
  the same row, leaves the log as it is.
\<close>

lemma sendMessage_resume_after_echo:
  assumes "currentUser st = Some cu"
      and "mrow_from_user d = user_id cu \<or> mrow_to_user d = user_id cu"
      and "count_id (mrow_id d) (messages st) = 0"
  shows "sendMessage_resume env (Some d, None) (messagesHandler env d st)
           = (messagesHandler env d st, [])"
    and "count_id (mrow_id d) (messages (messagesHandler env d st)) = 1"
proof -
  from assms(3) have none: "find (\<lambda>m. msg_id m = mrow_id d) (messages st) = None"
    by (simp add: count_id_zero_iff)
  with assms(1,2)
  have app: "messagesHandler env d st = st\<lparr> messages := messages st @ [mapMessage env d] \<rparr>"
    by (auto simp: messagesHandler_def Let_def mapMessage_def)
  then have "find (\<lambda>m. msg_id m = msg_id (mapMessage env d))
               (messages (messagesHandler env d st)) \<noteq> None"
    by (auto simp: find_None_iff)
  then show "sendMessage_resume env (Some d, None) (messagesHandler env d st)
               = (messagesHandler env d st, [])"
    by (auto simp: sendMessage_resume_def Let_def)
  from app assms(3) show "count_id (mrow_id d) (messages (messagesHandler env d st)) = 1"
    by (simp add: count_id_def mapMessage_def)
qed

text \<open>
  C6. When \<open>sendMessage\<close> has appended a message \<open>m\<close> to the log, a notification that
  carries a row with the id of \<open>m\<close> leaves the log as it is, with exactly one entry for
  that id; the same holds when other notifications are applied before the echo.
\<close>

theorem echo_absorbed:
  assumes "sendMessage env to txt st = (r, st', effs)"
      and "messages st' = messages st @ [m]"
      and "mrow_id echo = msg_id m"
  shows "messages (messagesHandler env echo st') = messages st' \<and>
         count_id (msg_id m) (messages (messagesHandler env echo st')) = 1 \<and>
         count_id (msg_id m) (messages (reconcile env (ns @ [MessageInserted echo]) st')) = 1"
proof -
  have "count_id (msg_id m) (messages st) = 0"
    using assms(1,2) by (rule sendMessage_appended)
  with assms(2) have one: "count_id (msg_id m) (messages st') = 1"
    by (simp add: count_id_def)
  with assms(3) have "messages (messagesHandler env echo st') = messages st'"
    by (simp add: messagesHandler_absorbs)
  moreover have "count_id (msg_id m) (messages (reconcile env (ns @ [MessageInserted echo]) st')) = 1"
    using one by (rule count_id_reconcile)
  ultimately show ?thesis using one by simp
qed

theorem echo_absorbed_witness:
  "sendMessage ex_env ''u2'' ''hello'' ex_connected
     = (Undefined, ex_connected \<lparr> messages := [mapMessage ex_env ex_mrow2] \<rparr>,
        [MessagesInsert ''u1'' ''u2'' ''hello'']) \<and>
   messages (ex_connected \<lparr> messages := [mapMessage ex_env ex_mrow2] \<rparr>)
     = messages ex_connected @ [mapMessage ex_env ex_mrow2] \<and>
   mrow_id ex_mrow2 = msg_id (mapMessage ex_env ex_mrow2) \<and>
   messages (messagesHandler ex_env ex_mrow2
       (ex_connected \<lparr> messages := [mapMessage ex_env ex_mrow2] \<rparr>))
     = [mapMessage ex_env ex_mrow2] \<and>
   count_id ''m2'' (messages (reconcile ex_env
       ([MessageInserted ex_mrow1] @ [MessageInserted ex_mrow2])
       (ex_connected \<lparr> messages := [mapMessage ex_env ex_mrow2] \<rparr>))) = 1"
proof -
  have s: "sendMessage ex_env ''u2'' ''hello'' ex_connected
     = (Undefined, ex_connected \<lparr> messages := [mapMessage ex_env ex_mrow2] \<rparr>,
        [MessagesInsert ''u1'' ''u2'' ''hello''])"
    by (simp add: sendMessage_def sendMessage_resume_def ex_env_def ex_connected_def
          mapUser_def ex_urow_def Let_def)
  have a: "messages (ex_connected \<lparr> messages := [mapMessage ex_env ex_mrow2] \<rparr>)
     = messages ex_connected @ [mapMessage ex_env ex_mrow2]"
    by (simp add: ex_connected_def)
  have i: "mrow_id ex_mrow2 = msg_id (mapMessage ex_env ex_mrow2)"
    by (simp add: mapMessage_def)
  have m2: "msg_id (mapMessage ex_env ex_mrow2) = ''m2''"
    by (simp add: mapMessage_def ex_mrow2_def)
  from s a i m2 echo_absorbed [OF s a i, of "[MessageInserted ex_mrow1]"]
  show ?thesis by simp
qed

subsection \<open>Rejected creations\<close>

text \<open>
  C4, as stated, fails for \<open>sendMessage\<close>: when the backend rejects the message, the
  operation resolves to \<open>undefined\<close>; the rejection goes to the console only.
\<close>

theorem creation_rejected_counterexample:
  "rejects_message (messages_insert ex_env_reject ''u1'' ''u2'' ''hello'') \<and>
   currentUser ex_connected = Some (mapUser ex_urow) \<and>
   sendMessage ex_env_reject ''u2'' ''hello'' ex_connected
     = (Undefined, ex_connected,
        [MessagesInsert ''u1'' ''u2'' ''hello'', ConsoleError ''Failed to send message:''])"
  by (simp add: rejects_message_def sendMessage_def sendMessage_resume_def ex_env_reject_def
        ex_env_def ex_connected_def mapUser_def ex_urow_def)

text \<open>
  C4, amended. When the backend rejects the entity creation, \<open>connect\<close> returns a message
  string to its caller (the error's message, or the fixed text when there is none),
  leaves the state as it is and issues the creation request once. When the backend
  rejects the message creation, \<open>sendMessage\<close> returns \<open>undefined\<close>, writes to the
  console, leaves the state as it is and issues the creation request once.
\<close>

theorem creation_rejected:
  "(supabaseConfigured env \<and> rejects_user (users_insert env name role) \<longrightarrow>
      connect env name role st
        = (Str (error_text (snd (users_insert env name role))), st,
           [UsersInsert name role False False, ConsoleError ''Failed to create user:''])) \<and>
   (currentUser st = Some cu \<and> rejects_message (messages_insert env (user_id cu) to txt) \<longrightarrow>
      sendMessage env to txt st
        = (Undefined, st,
           [MessagesInsert (user_id cu) to txt, ConsoleError ''Failed to send message:'']))"
  by (auto simp: connect_def sendMessage_def sendMessage_resume_def rejects_user_def
        rejects_message_def error_text_def split: option.splits prod.splits)

theorem creation_rejected_witness:
  "supabaseConfigured ex_env_reject \<and>
   rejects_user (users_insert ex_env_reject ''Ann'' passenger) \<and>
   connect ex_env_reject ''Ann'' passenger initialState
     = (Str ''permission denied'', initialState,
        [UsersInsert ''Ann'' passenger False False, ConsoleError ''Failed to create user:'']) \<and>
   currentUser ex_connected = Some (mapUser ex_urow) \<and>
   rejects_message (messages_insert ex_env_reject (user_id (mapUser ex_urow)) ''u2'' ''hello'') \<and>
   sendMessage ex_env_reject ''u2'' ''hello'' ex_connected
     = (Undefined, ex_connected,
        [MessagesInsert ''u1'' ''u2'' ''hello'', ConsoleError ''Failed to send message:''])"
  using creation_rejected [of ex_env_reject "''Ann''" passenger initialState]
    creation_rejected [of ex_env_reject "''Ann''" passenger ex_connected
      "mapUser ex_urow" "''u2''" "''hello''"]
  by (simp add: rejects_user_def rejects_message_def error_text_def ex_env_reject_def
        ex_env_def ex_connected_def mapUser_def ex_urow_def)

subsection \<open>Instruction strings\<close>




subsection \<open>Duration and distance formatting\<close>

lemma digit_value_digit_char:
  assumes "d < 10"
  shows "digit_value (digit_char d) = d"
proof -
  from assms
  have "d = 0 \<or> d = 1 \<or> d = 2 \<or> d = 3 \<or> d = 4 \<or> d = 5 \<or> d = 6 \<or> d = 7 \<or> d = 8 \<or> d = 9"
    by arith
  then show ?thesis
    by (elim disjE) (simp_all add: digit_value_def digit_char_def)
qed

lemma digits_value_append:
  "digits_value (xs @ [c]) = 10 * digits_value xs + digit_value c"
  by (simp add: digits_value_def)

lemma show_nat_value: "digits_value (show_nat n) = n"
proof (induction n rule: show_nat.induct)
  case (1 n)
  show ?case
  proof (cases "n < 10")
    case True
    then show ?thesis
      using digits_value_append [of "[]" "digit_char n"]
      by (simp add: show_nat.simps [of n] digit_value_digit_char digits_value_def)
  next
    case False
    with 1 have "digits_value (show_nat (n div 10)) = n div 10"
      by simp
    with False show ?thesis
      by (simp add: show_nat.simps [of n] digits_value_append digit_value_digit_char)
  qed
qed

lemma Math_round_eq: "Math_round x = round x"
  by (simp add: Math_round_def round_def)

lemma js_rem_nonneg:
  assumes "0 \<le> x" and "0 < y"
  shows "js_rem x y = x - y * of_int \<lfloor>x / y\<rfloor>"
  using assms by (simp add: js_rem_def)

lemma show_int_nonneg: "0 \<le> i \<Longrightarrow> show_int i = show_nat (nat i)"
  by (simp add: show_int_def)

lemma pow2_pos: "0 < pow2 e"
  by (simp add: pow2_def)

lemma round_even_nonneg: "0 \<le> x \<Longrightarrow> 0 \<le> round_even x"
  by (simp add: round_even_def Let_def)

lemma binary64_nonneg:
  assumes "0 \<le> x"
  shows "0 \<le> binary64 x"
proof (cases "x = 0")
  case True
  then show ?thesis by (simp add: binary64_def)
next
  case False
  let ?u = "pow2 (max (expo \<bar>x\<bar>) (- 1022) - 52)"
  have "0 \<le> x / ?u"
    using assms pow2_pos [of "max (expo \<bar>x\<bar>) (- 1022) - 52"] by simp
  then have "0 \<le> round_even (x / ?u)"
    by (rule round_even_nonneg)
  then have "0 \<le> of_int (round_even (x / ?u)) * ?u"
    using pow2_pos [of "max (expo \<bar>x\<bar>) (- 1022) - 52"] by simp
  with False show ?thesis by (simp add: binary64_def Let_def)
qed

lemma Number_toString_small: "\<bar>n\<bar> \<le> 2 ^ 53 \<Longrightarrow> Number_toString big n = show_int n"
  by (simp add: Number_toString_def)

lemma Number_toString_upto:
  assumes "0 \<le> n" and "n \<le> 1000"
  shows "Number_toString big n = show_int n"
proof -
  have "(1000::int) \<le> 2 ^ 53" by simp
  with assms have "\<bar>n\<bar> \<le> 2 ^ 53" by linarith
  then show ?thesis by (rule Number_toString_small)
qed

lemma toFixed1_small:
  assumes "0 \<le> x" and "x < 10 ^ 21"
  shows "toFixed1 big x
           = show_int (round (x * 10) div 10) @ ''.'' @ show_int (round (x * 10) mod 10)"
proof -
  have r: "0 \<le> round (x * 10)"
    using assms(1) by (simp add: round_def)
  have n: "nat \<lfloor>x * 10 + 1 / 2\<rfloor> = nat (round (x * 10))"
    by (simp add: round_def)
  have d: "nat (round (x * 10)) div 10 = nat (round (x * 10) div 10)"
    using r by (simp add: nat_div_distrib)
  have m: "nat (round (x * 10)) mod 10 = nat (round (x * 10) mod 10)"
    using r by (simp add: nat_mod_distrib)
  have nonneg: "0 \<le> round (x * 10) div 10" "0 \<le> round (x * 10) mod 10"
    using r by (simp_all add: pos_imp_zdiv_nonneg_iff)
  have "toFixed1 big x = show_nat (nat \<lfloor>x * 10 + 1 / 2\<rfloor> div 10) @ ''.'' @
                         show_nat (nat \<lfloor>x * 10 + 1 / 2\<rfloor> mod 10)"
    using assms by (simp add: toFixed1_def Let_def)
  also have "\<dots> = show_nat (nat (round (x * 10) div 10)) @ ''.'' @
                   show_nat (nat (round (x * 10) mod 10))"
    by (simp only: n d m)
  also have "\<dots> = show_int (round (x * 10) div 10) @ ''.'' @ show_int (round (x * 10) mod 10)"
    using nonneg by (simp add: show_int_nonneg)
  finally show ?thesis .
qed

lemma formatDuration_eq:
  assumes "0 \<le> minutes" and "\<bar>binary64 (minutes / 60)\<bar> \<le> 2 ^ 53"
  shows "formatDuration big minutes =
     (if minutes < 1 then ''< 1 min''
      else if minutes < 60 then show_int (round minutes) @ '' min''
      else show_int \<lfloor>binary64 (minutes / 60)\<rfloor> @ ''h '' @
           show_int (round (minutes - 60 * of_int \<lfloor>minutes / 60\<rfloor>)) @ ''m'')"
proof (cases "minutes < 60")
  case True
  have "0 \<le> round minutes" using assms(1) by (simp add: round_def)
  moreover have "round minutes \<le> 1000" using True by (simp add: round_def)
  ultimately have "Number_toString big (round minutes) = show_int (round minutes)"
    by (rule Number_toString_upto)
  with True show ?thesis
    by (simp add: formatDuration_def Math_round_eq)
next
  case False
  let ?h = "\<lfloor>binary64 (minutes / 60)\<rfloor>"
  let ?r = "minutes - 60 * of_int \<lfloor>minutes / 60\<rfloor>"
  have "- (2 ^ 53) \<le> binary64 (minutes / 60)" and "binary64 (minutes / 60) \<le> 2 ^ 53"
    using assms(2) by (simp_all add: abs_le_iff)
  then have "- (2 ^ 53) \<le> ?h" and "?h \<le> 2 ^ 53"
    by (simp_all add: le_floor_iff floor_le_iff)
  then have "\<bar>?h\<bar> \<le> 2 ^ 53" by linarith
  then have h: "Number_toString big ?h = show_int ?h"
    by (rule Number_toString_small)
  have "0 \<le> ?r" and "?r < 60"
    by linarith+
  then have "0 \<le> round ?r" and "round ?r \<le> 1000"
    unfolding round_def by linarith+
  then have m: "Number_toString big (round ?r) = show_int (round ?r)"
    by (rule Number_toString_upto)
  from False assms(1) h m show ?thesis
    by (simp add: formatDuration_def Math_round_eq Math_floor_def js_rem_nonneg Let_def)
qed

lemma formatDistance_eq:
  assumes "0 \<le> meters" and "binary64 (meters / 1000) < 10 ^ 21"
  shows "formatDistance big meters =
     (if meters < 1000 then show_int (round meters) @ '' m''
      else show_int (round (binary64 (meters / 1000) * 10) div 10) @ ''.'' @
           show_int (round (binary64 (meters / 1000) * 10) mod 10) @ '' km'')"
proof (cases "meters < 1000")
  case True
  have "0 \<le> round meters" using assms(1) by (simp add: round_def)
  moreover have "round meters \<le> 1000" using True by (simp add: round_def)
  ultimately have "Number_toString big (round meters) = show_int (round meters)"
    by (rule Number_toString_upto)
  with True show ?thesis
    by (simp add: formatDistance_def Math_round_eq)
next
  case False
  have "0 \<le> binary64 (meters / 1000)"
    using assms(1) by (intro binary64_nonneg) simp
  with assms(2) False show ?thesis
    by (simp add: formatDistance_def toFixed1_small)
qed

lemma format_examples:
  "formatDuration big (1 / 2) = ''< 1 min''"
  "formatDuration big 45 = ''45 min''"
  "formatDuration big 125 = ''2h 5m''"
  "formatDistance big 500 = ''500 m''"
  "formatDistance big 2500 = ''2.5 km''"
  by (simp_all add: formatDuration_def formatDistance_def toFixed1_def Number_toString_def
        Math_round_def Math_floor_def js_rem_def binary64_def expo.simps pow2_def
        round_even_def show_int_def show_nat.simps digit_char_def Let_def)

text \<open>
  C8, as stated, fails for very large inputs: the double that \<open>1e24\<close> denotes, divided
  by 1000, is the double \<open>1e21\<close>, for which \<open>toFixed(1)\<close> prints exponent notation, so
  the result is "1e+21 km" and not the kilometres to one decimal.
\<close>

theorem format_policy_counterexample:
  "binary64 (ex_1e24 / 1000) = 10 ^ 21 \<and>
   formatDistance ex_big ex_1e24 = ''1e+21 km'' \<and>
   CHR ''.'' \<notin> set (formatDistance ex_big ex_1e24)"
  by (simp add: formatDistance_def toFixed1_def ex_1e24_def ex_big_def binary64_def
        expo.simps pow2_def round_even_def Let_def)

text \<open>
  C8, amended. For a non-negative input, as long as the computed hours (the double
  quotient of the minutes by 60) are at most \<open>2 ^ 53\<close> and the computed kilometres (the
  double quotient of the metres by 1000) are below \<open>10 ^ 21\<close>: \<open>formatDuration\<close> gives
  "< 1 min" below one minute, the minutes rounded to the nearest whole number and " min"
  below sixty, and otherwise the whole part of the computed hours, "h ", the remainder of
  the minutes modulo sixty rounded to the nearest whole number, and "m";
  \<open>formatDistance\<close> gives the metres rounded to the nearest whole number and " m" below
  1000, and otherwise the computed kilometres rounded to the nearest tenth (the larger
  one on a tie) and " km". Whole numbers are printed in decimal digits. The five values
  of the specification are instances.
\<close>

theorem format_policy:
  assumes "0 \<le> minutes" and "\<bar>binary64 (minutes / 60)\<bar> \<le> 2 ^ 53"
      and "0 \<le> meters" and "binary64 (meters / 1000) < 10 ^ 21"
  shows "formatDuration big minutes =
           (if minutes < 1 then ''< 1 min''
            else if minutes < 60 then show_int (round minutes) @ '' min''
            else show_int \<lfloor>binary64 (minutes / 60)\<rfloor> @ ''h '' @
                 show_int (round (minutes - 60 * of_int \<lfloor>minutes / 60\<rfloor>)) @ ''m'') \<and>
         formatDistance big meters =
           (if meters < 1000 then show_int (round meters) @ '' m''
            else show_int (round (binary64 (meters / 1000) * 10) div 10) @ ''.'' @
                 show_int (round (binary64 (meters / 1000) * 10) mod 10) @ '' km'') \<and>
         formatDuration big (1 / 2) = ''< 1 min'' \<and>
         formatDuration big 45 = ''45 min'' \<and>
         formatDuration big 125 = ''2h 5m'' \<and>
         formatDistance big 500 = ''500 m'' \<and>
         formatDistance big 2500 = ''2.5 km''"
  using formatDuration_eq [OF assms(1,2), of big] formatDistance_eq [OF assms(3,4), of big]
    format_examples [of big]
  by simp

text \<open>The double quotients 1150 / 1000, 1250 / 1000, 1450 / 1000, 2050 / 1000 and 119.75 / 60.\<close>

lemma binary64_examples:
  "binary64 (23 / 20) = 2589569785738035 / 2251799813685248"
  "binary64 (5 / 4) = 5 / 4"
  "binary64 (29 / 20) = 6530219459687219 / 4503599627370496"
  "binary64 (41 / 20) = 2308094809027379 / 1125899906842624"
  "binary64 (479 / 240) = 8988434256293615 / 4503599627370496"
  by (simp_all add: binary64_def expo.simps pow2_def round_even_def Let_def)

theorem format_policy_witness:
  "(0::real) \<le> 479 / 4 \<and> \<bar>binary64 (479 / 4 / 60)\<bar> \<le> 2 ^ 53 \<and>
   (0::real) \<le> 1150 \<and> binary64 (1150 / 1000) < 10 ^ 21 \<and>
   formatDuration ex_big (479 / 4) = ''1h 60m'' \<and>
   formatDistance ex_big 1150 = ''1.1 km'' \<and>
   formatDistance ex_big 1250 = ''1.3 km'' \<and>
   formatDistance ex_big 1450 = ''1.4 km'' \<and>
   formatDistance ex_big 2050 = ''2.0 km'' \<and>
   digits_value (show_nat 125) = 125"
proof -
  have m: "(0::real) \<le> 479 / 4" "\<bar>binary64 (479 / 4 / 60)\<bar> \<le> 2 ^ 53"
    by (simp_all add: binary64_examples)
  have d1: "(0::real) \<le> 1150" "binary64 (1150 / 1000) < 10 ^ 21"
    by (simp_all add: binary64_examples)
  have d2: "(0::real) \<le> 1250" "binary64 (1250 / 1000) < 10 ^ 21"
    by (simp_all add: binary64_examples)
  have d3: "(0::real) \<le> 1450" "binary64 (1450 / 1000) < 10 ^ 21"
    by (simp_all add: binary64_examples)
  have d4: "(0::real) \<le> 2050" "binary64 (2050 / 1000) < 10 ^ 21"
    by (simp_all add: binary64_examples)
  from m d1
    format_policy [OF m d1, of ex_big] format_policy [OF m d2, of ex_big]
    format_policy [OF m d3, of ex_big] format_policy [OF m d4, of ex_big]
    show_nat_value [of 125]
  show ?thesis
    by (simp add: binary64_examples round_def show_int_def show_nat.simps digit_char_def)
qed

end
